theory Spec2Isabelle
  imports Main
begin

section \<open>JavaScript values used by the chat client\<close>

text \<open>
  A value thrown by JavaScript code. \<open>ErrorObj name message\<close> is an instance of
  \<open>Error\<close> (or of a subclass, told apart by its \<open>name\<close>); \<open>NonError s\<close> is any
  other thrown value, \<open>s\<close> being what \<open>String(error)\<close> yields for it.
\<close>

datatype thrown = ErrorObj string string | NonError string

definition new_Error :: "string \<Rightarrow> thrown" where
  "new_Error m = ErrorObj ''Error'' m"

text \<open>\<^verbatim>\<open>error instanceof Error ? error.message : String(error)\<close>\<close>

fun errorMessage :: "thrown \<Rightarrow> string" where
  "errorMessage (ErrorObj n m) = m"
| "errorMessage (NonError s) = s"

text \<open>
  \<open>String.prototype.trim\<close>: white space and line terminators are removed at both
  ends. Strings are lists of 8-bit characters here, so the white space is the part
  of JavaScript's that lies below 256: TAB, LF, VT, FF, CR, SP and NBSP.
\<close>

definition is_white :: "char \<Rightarrow> bool" where
  "is_white c = (of_char c \<in> {9, 10, 11, 12, 13, 32, 160 :: nat})"

definition trim :: "string \<Rightarrow> string" where
  "trim s = rev (dropWhile is_white (rev (dropWhile is_white s)))"

text \<open>
  \<open>Array.prototype.slice(start)\<close> with an integral \<open>start\<close>: a negative start counts
  from the end and is clamped at the first element, a positive one is clamped at
  the length.
\<close>

definition js_slice :: "'a list \<Rightarrow> int \<Rightarrow> 'a list" where
  "js_slice xs start =
     (let len = int (length xs);
          k = (if start < 0 then max (len + start) 0 else min start len)
      in drop (nat k) xs)"

section \<open>The data model of \<open>lib/surrealdb.ts\<close>\<close>

text \<open>\<open>timestamp\<close> is the \<open>getTime()\<close> of the message's date, in milliseconds.\<close>

record ChatMessage =
  id :: "string option"
  username :: string
  message :: string
  timestamp :: int

text \<open>
  The calls the service issues on its database handle, in the order it issues them.
  The database is an external server: the outcome of a call is an argument of the
  function that issues it.
\<close>

datatype db_call =
    New
  | Connect string
  | Signin
  | Use
  | QueryInfo
  | DefineSchema
  | Close
  | Create string string int
  | Select
  | Live
  | Kill string

record SurrealDBService =
  connected :: bool

definition not_connected :: thrown where
  "not_connected = new_Error ''Database not connected''"

subsection \<open>connect\<close>

record conn_config =
  url :: string
  ctype :: string

definition connectionConfigs :: "conn_config list" where
  "connectionConfigs =
     [\<lparr>url = ''ws://localhost:8000/rpc'', ctype = ''WebSocket''\<rparr>,
      \<lparr>url = ''http://localhost:8000/rpc'', ctype = ''HTTP''\<rparr>,
      \<lparr>url = ''ws://127.0.0.1:8000/rpc'', ctype = ''WebSocket''\<rparr>,
      \<lparr>url = ''http://127.0.0.1:8000/rpc'', ctype = ''HTTP''\<rparr>,
      \<lparr>url = ''ws://localhost:8000'', ctype = ''WebSocket-Basic''\<rparr>,
      \<lparr>url = ''http://localhost:8000'', ctype = ''HTTP-Basic''\<rparr>]"

text \<open>
  What the server does with one attempt: every awaited call resolves, or the call
  at one step rejects with a value. The steps are those of \<open>lib/surrealdb.ts\<close>:
  connect, sign in, select namespace and database, the test query \<open>INFO DB\<close>,
  the schema definition. (The repository holds a second copy of the service with
  the same loop, without the test query and with a schema definition that catches
  its own errors; there the last two steps never reject.)
\<close>

datatype conn_step = AtConnect | AtSignin | AtUse | AtQuery | AtSchema

datatype outcome = Succeeds | Throws conn_step thrown

text \<open>The calls of the \<open>try\<close> block up to and including the one at a step.\<close>

fun calls_until :: "string \<Rightarrow> conn_step \<Rightarrow> db_call list" where
  "calls_until u AtConnect = [New, Connect u]"
| "calls_until u AtSignin = [New, Connect u, Signin]"
| "calls_until u AtUse = [New, Connect u, Signin, Use]"
| "calls_until u AtQuery = [New, Connect u, Signin, Use, QueryInfo]"
| "calls_until u AtSchema = [New, Connect u, Signin, Use, QueryInfo, DefineSchema]"

text \<open>\<open>this.connected = true\<close> stands after \<open>use\<close> and before the test query.\<close>

fun sets_connected :: "conn_step \<Rightarrow> bool" where
  "sets_connected AtQuery = True"
| "sets_connected AtSchema = True"
| "sets_connected _ = False"

definition error_entry :: "conn_config \<Rightarrow> thrown \<Rightarrow> string" where
  "error_entry c e = url c @ '' ('' @ ctype c @ ''): '' @ errorMessage e"

record conn_run =
  run_connected :: bool
  errors :: "string list"
  calls :: "db_call list"

text \<open>
  The \<open>for\<close> loop of \<open>connect\<close>. The boolean tells whether the loop was left by
  \<open>return\<close>. A failing \<open>close\<close> in the handler is ignored by the source, so it has
  no outcome here.
\<close>

fun connect_loop :: "(conn_config \<Rightarrow> outcome) \<Rightarrow> conn_config list \<Rightarrow> conn_run \<Rightarrow> conn_run \<times> bool" where
  "connect_loop env [] r = (r, False)"
| "connect_loop env (c # cs) r =
     (case env c of
        Succeeds \<Rightarrow>
          (r\<lparr>run_connected := True, calls := calls r @ calls_until (url c) AtSchema\<rparr>, True)
      | Throws st e \<Rightarrow>
          connect_loop env cs
            (r\<lparr>run_connected := (run_connected r \<or> sets_connected st),
               errors := errors r @ [error_entry c e],
               calls := calls r @ calls_until (url c) st @ [Close]\<rparr>))"

definition all_failed_message :: "string list \<Rightarrow> string" where
  "all_failed_message es =
     ''All connection attempts failed. Server is running, but client connection failed. Check browser console for detailed errors. Last error: ''
       @ (if es = [] then ''Unknown'' else if last es = [] then ''Unknown'' else last es)"

text \<open>
  \<open>connect\<close> returns what it throws (\<open>None\<close> when it returns normally), the service,
  the calls it issued and the \<open>errors\<close> array, which it prints on the console.
\<close>

definition connect :: "SurrealDBService \<Rightarrow> (conn_config \<Rightarrow> outcome) \<Rightarrow> thrown option \<times> SurrealDBService \<times> db_call list \<times> string list" where
  "connect svc env =
     (let (r, returned) =
            connect_loop env connectionConfigs
              \<lparr>run_connected = connected svc, errors = [], calls = []\<rparr>;
          svc' = svc\<lparr>connected := run_connected r\<rparr>
      in if returned then (None, svc', calls r, errors r)
         else (Some (new_Error (all_failed_message (errors r))), svc', calls r, errors r))"

subsection \<open>sendMessage, getMessages, subscribeToMessages, unsubscribe, disconnect\<close>

text \<open>\<open>db.create\<close> resolves to one record or to an array of records.\<close>

datatype create_result = Single ChatMessage | Many "ChatMessage list"

fun as_array :: "create_result \<Rightarrow> ChatMessage list" where
  "as_array (Single m) = [m]"
| "as_array (Many ms) = ms"

definition sendMessage :: "SurrealDBService \<Rightarrow> string \<Rightarrow> string \<Rightarrow> int \<Rightarrow> thrown + create_result \<Rightarrow> (thrown + ChatMessage list) \<times> db_call list" where
  "sendMessage svc uname msg now created =
     (if \<not> connected svc then (Inl not_connected, [])
      else (case created of
              Inr res \<Rightarrow> (Inr (as_array res), [Create uname msg now])
            | Inl e \<Rightarrow> (Inl e, [Create uname msg now])))"

text \<open>\<open>db.select\<close> resolves to an array of records or to something else.\<close>

datatype select_result = Rows "ChatMessage list" | NoArray

definition getMessages :: "SurrealDBService \<Rightarrow> int \<Rightarrow> thrown + select_result \<Rightarrow> (thrown + ChatMessage list) \<times> db_call list" where
  "getMessages svc limit selected =
     (if \<not> connected svc then (Inl not_connected, [])
      else (case selected of
              Inr (Rows ms) \<Rightarrow> (Inr (js_slice (sort_key timestamp ms) (- limit)), [Select])
            | Inr NoArray \<Rightarrow> (Inr [], [Select])
            | Inl e \<Rightarrow> (Inr [], [Select])))"

text \<open>
  The handler \<open>subscribeToMessages\<close> hands to \<open>db.live\<close>. The consumer's callback
  is a state transformer; the payload of an event may be absent.
\<close>

definition live_handler :: "(ChatMessage \<Rightarrow> 's \<Rightarrow> 's) \<Rightarrow> string \<Rightarrow> ChatMessage option \<Rightarrow> 's \<Rightarrow> 's" where
  "live_handler callback action result s =
     (if action = ''CREATE''
      then (case result of Some m \<Rightarrow> callback m s | None \<Rightarrow> s)
      else s)"

definition subscribeToMessages :: "SurrealDBService \<Rightarrow> thrown + string \<Rightarrow> (thrown + string) \<times> db_call list" where
  "subscribeToMessages svc lived =
     (if \<not> connected svc then (Inl not_connected, [])
      else (case lived of
              Inr queryUuid \<Rightarrow> (Inr queryUuid, [Live])
            | Inl e \<Rightarrow> (Inl e, [Live])))"

text \<open>\<open>unsubscribe\<close> logs a rejected \<open>db.kill\<close> and returns.\<close>

definition unsubscribe :: "SurrealDBService \<Rightarrow> string \<Rightarrow> thrown option \<Rightarrow> thrown option \<times> db_call list" where
  "unsubscribe svc queryUuid killed =
     (case killed of
        None \<Rightarrow> (None, [Kill queryUuid])
      | Some e \<Rightarrow> (None, [Kill queryUuid]))"

text \<open>
  \<open>disconnect\<close> awaits \<open>db.close\<close> outside any handler: when \<open>close\<close> rejects, the
  rejection reaches the caller and the flag stays set.
\<close>

definition disconnect :: "SurrealDBService \<Rightarrow> thrown option \<Rightarrow> thrown option \<times> SurrealDBService \<times> db_call list" where
  "disconnect svc closed =
     (if connected svc
      then (case closed of
              None \<Rightarrow> (None, svc\<lparr>connected := False\<rparr>, [Close])
            | Some e \<Rightarrow> (Some e, svc, [Close]))
      else (None, svc, []))"

section \<open>The component of \<open>components/Chat.tsx\<close>\<close>

record Chat =
  messages :: "ChatMessage list"
  newMessage :: string
  username :: string
  isConnected :: bool
  isJoined :: bool
  loading :: bool
  subscriptionRef :: "string option"

text \<open>The state of the component when it mounts.\<close>

definition initial_Chat :: Chat where
  "initial_Chat =
     \<lparr>messages = [], newMessage = [], username = [], isConnected = False,
      isJoined = False, loading = False, subscriptionRef = None\<rparr>"

definition initial_service :: SurrealDBService where
  "initial_service = \<lparr>connected = False\<rparr>"

text \<open>\<open>initConnection\<close> of the mount effect; \<open>getMessages()\<close> takes its default limit, 50.\<close>

definition initConnection :: "(conn_config \<Rightarrow> outcome) \<Rightarrow> thrown + select_result \<Rightarrow> SurrealDBService \<Rightarrow> Chat \<Rightarrow> SurrealDBService \<times> Chat \<times> db_call list" where
  "initConnection env selected svc c =
     (case connect svc env of
        (Some e, svc', cs, es) \<Rightarrow> (svc', c\<lparr>isConnected := False, loading := False\<rparr>, cs)
      | (None, svc', cs, es) \<Rightarrow>
          (case getMessages svc' 50 selected of
             (Inr existingMessages, cs') \<Rightarrow>
               (svc', c\<lparr>messages := existingMessages, isConnected := True, loading := False\<rparr>, cs @ cs')
           | (Inl e, cs') \<Rightarrow> (svc', c\<lparr>isConnected := False, loading := False\<rparr>, cs @ cs')))"

text \<open>The callback \<open>joinChat\<close> subscribes with: \<open>setMessages(prev => [...prev, message])\<close>.\<close>

definition append_message :: "ChatMessage \<Rightarrow> Chat \<Rightarrow> Chat" where
  "append_message m c = c\<lparr>messages := messages c @ [m]\<rparr>"

text \<open>
  The handlers return what they throw (\<open>None\<close>: they return normally), the new state
  of the component and the database calls issued. The component's handler
  \<open>sendMessage\<close> is \<open>Chat_sendMessage\<close> here, the name \<open>sendMessage\<close> being the
  service's method; its argument \<open>now\<close> is the \<open>new Date()\<close> the service stamps
  the record with.
\<close>

definition joinChat :: "Chat \<Rightarrow> SurrealDBService \<Rightarrow> thrown + string \<Rightarrow> thrown option \<times> Chat \<times> db_call list" where
  "joinChat c svc lived =
     (if trim (Chat.username c) = [] \<or> \<not> isConnected c then (None, c, [])
      else (case subscribeToMessages svc lived of
              (Inr subscription, cs) \<Rightarrow>
                (None, c\<lparr>subscriptionRef := Some subscription, isJoined := True\<rparr>, cs)
            | (Inl e, cs) \<Rightarrow> (None, c, cs)))"

definition Chat_sendMessage :: "Chat \<Rightarrow> SurrealDBService \<Rightarrow> int \<Rightarrow> thrown + create_result \<Rightarrow> thrown option \<times> Chat \<times> db_call list" where
  "Chat_sendMessage c svc now created =
     (if trim (newMessage c) = [] \<or> \<not> isJoined c \<or> \<not> isConnected c then (None, c, [])
      else (case sendMessage svc (Chat.username c) (trim (newMessage c)) now created of
              (Inr res, cs) \<Rightarrow> (None, c\<lparr>newMessage := []\<rparr>, cs)
            | (Inl e, cs) \<Rightarrow> (None, c, cs)))"

section \<open>One client and the database\<close>

text \<open>
  The client runs against a database server that other clients write to. What is
  taken of the server: \<open>db.select\<close> resolves to the rows of the table; \<open>db.live\<close>
  registers a live query and resolves to its id; a record created by any client is
  reported once, as \<open>CREATE\<close> with the record, to every live query registered at that
  moment and to no other; a \<open>db.kill\<close> that resolves removes the query it names, one
  that rejects leaves it registered. The server acts on the calls the client's code
  issues, and on nothing else: \<open>issued\<close> is the sequence of those calls.
\<close>

record world =
  table :: "ChatMessage list"
  live :: "string list"
  svc :: SurrealDBService
  ui :: Chat
  issued :: "db_call list"

text \<open>
  What one call of the client does to the live queries registered at the server,
  \<open>killed\<close> being the server's answer to a \<open>kill\<close>.
\<close>

fun db_kill :: "thrown option \<Rightarrow> db_call \<Rightarrow> string list \<Rightarrow> string list" where
  "db_kill None (Kill q) qs = removeAll q qs"
| "db_kill (Some e) (Kill q) qs = qs"
| "db_kill killed c qs = qs"

text \<open>
  The events: the component mounts, the user types a name, the user joins (the
  server names the live query), some client creates a record, and
  \<open>unsubscribe\<close> is called on an id (with the server's answer to the \<open>kill\<close>).
\<close>

datatype event =
    Mount "conn_config \<Rightarrow> outcome"
  | TypeName string
  | Join string
  | Post ChatMessage
  | Unsubscribe string "thrown option"

fun world_step :: "event \<Rightarrow> world \<Rightarrow> world" where
  "world_step (Mount env) w =
     (case initConnection env (Inr (Rows (table w))) (svc w) (ui w) of
        (svc', c, cs) \<Rightarrow> w\<lparr>svc := svc', ui := c, issued := issued w @ cs\<rparr>)"
| "world_step (TypeName n) w = w\<lparr>ui := (ui w)\<lparr>Chat.username := n\<rparr>\<rparr>"
| "world_step (Join q) w =
     (case joinChat (ui w) (svc w) (Inr q) of
        (t, c, cs) \<Rightarrow>
          w\<lparr>ui := c, live := (if Live \<in> set cs then live w @ [q] else live w),
            issued := issued w @ cs\<rparr>)"
| "world_step (Post m) w =
     w\<lparr>table := table w @ [m],
       ui := fold (\<lambda>q. live_handler append_message ''CREATE'' (Some m)) (live w) (ui w)\<rparr>"
| "world_step (Unsubscribe q killed) w =
     (case unsubscribe (svc w) q killed of
        (t, cs) \<Rightarrow> w\<lparr>live := fold (db_kill killed) cs (live w), issued := issued w @ cs\<rparr>)"

definition run :: "event list \<Rightarrow> world \<Rightarrow> world" where
  "run evs w = fold world_step evs w"

definition initial_world :: world where
  "initial_world =
     \<lparr>table = [], live = [], svc = initial_service, ui = initial_Chat, issued = []\<rparr>"

section \<open>Notions the statements use\<close>

text \<open>A live query receiving a sequence of events, each an action with a payload.\<close>

definition deliver :: "(string \<times> ChatMessage option) list \<Rightarrow> Chat \<Rightarrow> Chat" where
  "deliver evs c = fold (\<lambda>(action, result). live_handler append_message action result) evs c"

text \<open>The records of the \<open>CREATE\<close> events of a sequence that carry one.\<close>

definition created_records :: "(string \<times> ChatMessage option) list \<Rightarrow> ChatMessage list" where
  "created_records evs =
     List.map_filter (\<lambda>(action, result). if action = ''CREATE'' then result else None) evs"

text \<open>The URLs \<open>db.connect\<close> was called with, in order.\<close>

fun connect_urls :: "db_call list \<Rightarrow> string list" where
  "connect_urls [] = []"
| "connect_urls (Connect u # cs) = u # connect_urls cs"
| "connect_urls (x # cs) = connect_urls cs"

text \<open>The entries of a list up to and including the first that succeeds.\<close>

definition failing :: "(conn_config \<Rightarrow> outcome) \<Rightarrow> conn_config \<Rightarrow> bool" where
  "failing env c = (env c \<noteq> Succeeds)"

definition up_to_success :: "(conn_config \<Rightarrow> outcome) \<Rightarrow> conn_config list \<Rightarrow> conn_config list" where
  "up_to_success env cs = takeWhile (failing env) cs @ take 1 (dropWhile (failing env) cs)"

text \<open>
  The calls of one attempt: a full bootstrap (connect, sign in, select the database,
  test query, schema) when it succeeds, the calls up to the rejected one followed
  by \<open>close\<close> when it fails.
\<close>

definition attempt_calls :: "(conn_config \<Rightarrow> outcome) \<Rightarrow> conn_config \<Rightarrow> db_call list" where
  "attempt_calls env c =
     (case env c of
        Succeeds \<Rightarrow> [New, Connect (url c), Signin, Use, QueryInfo, DefineSchema]
      | Throws st e \<Rightarrow> calls_until (url c) st @ [Close])"

text \<open>
  A client's session: records \<open>pre\<close> exist when it mounts and reads the history,
  records \<open>mid\<close> are created before it joins under the name \<open>n\<close>, records \<open>post\<close>
  after its live query \<open>q\<close> is registered.
\<close>

definition join_session :: "(conn_config \<Rightarrow> outcome) \<Rightarrow> ChatMessage list \<Rightarrow> ChatMessage list \<Rightarrow> string \<Rightarrow> string \<Rightarrow> ChatMessage list \<Rightarrow> world" where
  "join_session env pre mid n q post =
     run (map Post pre @ [Mount env] @ map Post mid @ [TypeName n, Join q] @ map Post post)
       initial_world"

text \<open>Sample values: three records, a connected service, two states of the component.\<close>

definition alice_hi :: "int \<Rightarrow> ChatMessage" where
  "alice_hi t = \<lparr>id = Some ''messages:1'', username = ''alice'', message = ''hi'', timestamp = t\<rparr>"

definition bob_yo :: "int \<Rightarrow> ChatMessage" where
  "bob_yo t = \<lparr>id = Some ''messages:2'', username = ''bob'', message = ''yo'', timestamp = t\<rparr>"

definition carol_ok :: "int \<Rightarrow> ChatMessage" where
  "carol_ok t = \<lparr>id = Some ''messages:3'', username = ''carol'', message = ''ok'', timestamp = t\<rparr>"

definition online :: SurrealDBService where
  "online = \<lparr>connected = True\<rparr>"

definition joined_Chat :: "string \<Rightarrow> string \<Rightarrow> Chat" where
  "joined_Chat n body =
     \<lparr>messages = [], newMessage = body, username = n, isConnected = True,
      isJoined = True, loading = False, subscriptionRef = Some ''q1''\<rparr>"

definition connected_Chat :: "string \<Rightarrow> string \<Rightarrow> Chat" where
  "connected_Chat n body =
     \<lparr>messages = [], newMessage = body, username = n, isConnected = True,
      isJoined = False, loading = False, subscriptionRef = None\<rparr>"

text \<open>The four components of what \<open>connect\<close> yields.\<close>

definition connect_thrown :: "SurrealDBService \<Rightarrow> (conn_config \<Rightarrow> outcome) \<Rightarrow> thrown option" where
  "connect_thrown s env = fst (connect s env)"

definition connect_calls :: "SurrealDBService \<Rightarrow> (conn_config \<Rightarrow> outcome) \<Rightarrow> db_call list" where
  "connect_calls s env = fst (snd (snd (connect s env)))"

definition connect_errors :: "SurrealDBService \<Rightarrow> (conn_config \<Rightarrow> outcome) \<Rightarrow> string list" where
  "connect_errors s env = snd (snd (snd (connect s env)))"

text \<open>
  Sample servers: one that accepts every endpoint, one that accepts the third only,
  one that refuses every connection, and one that refuses all but rejects the
  sign-in at the first endpoint.
\<close>

definition all_succeed :: "conn_config \<Rightarrow> outcome" where
  "all_succeed c = Succeeds"

definition third_only :: "conn_config \<Rightarrow> outcome" where
  "third_only c = (if url c = ''ws://127.0.0.1:8000/rpc'' then Succeeds
                   else Throws AtConnect (NonError ''refused''))"

definition all_refused :: "conn_config \<Rightarrow> outcome" where
  "all_refused c = Throws AtConnect (NonError ''refused'')"

definition first_denied :: "conn_config \<Rightarrow> outcome" where
  "first_denied c = (if url c = ''ws://localhost:8000/rpc'' then Throws AtSignin (NonError ''denied'')
                     else Throws AtConnect (NonError ''refused''))"


text \<open>A record whose author and body are empty.\<close>

definition blank_record :: ChatMessage where
  "blank_record = \<lparr>id = Some ''messages:4'', username = [], message = [], timestamp = 7\<rparr>"

section \<open>Helper facts\<close>

subsection \<open>Slices\<close>

lemma js_slice_last:
  "0 < limit \<Longrightarrow> js_slice xs (- limit) = drop (length xs - nat limit) xs"
  by (auto simp: js_slice_def Let_def max_def nat_diff_distrib' intro!: arg_cong[where f="\<lambda>k. drop k xs"])

lemma sorted_map_drop: "sorted (map f xs) \<Longrightarrow> sorted (map f (drop n xs))"
  by (simp add: drop_map[symmetric] sorted_wrt_drop)

subsection \<open>The retry loop\<close>

lemma connect_loop_calls:
  "calls (fst (connect_loop env cs r)) = calls r @ concat (map (attempt_calls env) (up_to_success env cs))"
proof (induction cs arbitrary: r)
  case Nil
  show ?case by (simp add: up_to_success_def)
next
  case (Cons c cs)
  show ?case
  proof (cases "env c")
    case Succeeds
    then show ?thesis by (simp add: up_to_success_def failing_def attempt_calls_def)
  next
    case (Throws st e)
    then show ?thesis
      using Cons.IH by (simp add: up_to_success_def failing_def attempt_calls_def)
  qed
qed

lemma connect_loop_returned:
  "snd (connect_loop env cs r) = (\<exists>c\<in>set cs. env c = Succeeds)"
proof (induction cs arbitrary: r)
  case Nil
  show ?case by simp
next
  case (Cons c cs)
  then show ?case by (cases "env c") simp_all
qed

lemma connect_loop_errors:
  "errors (fst (connect_loop (\<lambda>c. Throws (st c) (e c)) cs r)) = errors r @ map (\<lambda>c. error_entry c (e c)) cs"
  by (induction cs arbitrary: r) simp_all

lemma connect_loop_return_connected:
  "snd (connect_loop env cs r) \<Longrightarrow> run_connected (fst (connect_loop env cs r))"
proof (induction cs arbitrary: r)
  case Nil
  then show ?case by simp
next
  case (Cons c cs)
  then show ?case by (cases "env c") simp_all
qed

lemma connect_success:
  assumes "\<exists>c\<in>set connectionConfigs. env c = Succeeds"
  shows "\<exists>cs es. connect s env = (None, s\<lparr>connected := True\<rparr>, cs, es)"
proof -
  let ?r0 = "\<lparr>run_connected = connected s, errors = [], calls = []\<rparr>"
  obtain r b where L: "connect_loop env connectionConfigs ?r0 = (r, b)"
    by (cases "connect_loop env connectionConfigs ?r0")
  have b: b
    using connect_loop_returned[of env connectionConfigs ?r0] assms by (simp add: L)
  then have "run_connected r"
    using connect_loop_return_connected[of env connectionConfigs ?r0] by (simp add: L)
  with b show ?thesis by (simp add: connect_def L)
qed

lemma connect_urls_append: "connect_urls (xs @ ys) = connect_urls xs @ connect_urls ys"
  by (induction xs rule: connect_urls.induct) simp_all

lemma connect_urls_attempt: "connect_urls (attempt_calls env c) = [url c]"
proof (cases "env c")
  case Succeeds
  then show ?thesis by (simp add: attempt_calls_def)
next
  case (Throws st e)
  then show ?thesis by (cases st) (simp_all add: attempt_calls_def)
qed

lemma connect_urls_attempts: "connect_urls (concat (map (attempt_calls env) cs)) = map url cs"
  by (induction cs) (simp_all add: connect_urls_append connect_urls_attempt)

lemma up_to_success_third:
  "up_to_success third_only connectionConfigs = take 3 connectionConfigs"
  by (simp add: up_to_success_def failing_def third_only_def connectionConfigs_def)

subsection \<open>Runs of the client against the database\<close>

lemma run_append: "run (xs @ ys) w = run ys (run xs w)"
  by (simp add: run_def)

lemma run_posts_unsubscribed:
  "live w = [] \<Longrightarrow> run (map Post ms) w = w\<lparr>table := table w @ ms\<rparr>"
proof (induction ms arbitrary: w)
  case Nil
  show ?case by (simp add: run_def)
next
  case (Cons m ms)
  have "run (map Post (m # ms)) w = run (map Post ms) (world_step (Post m) w)"
    by (simp add: run_def)
  also have "\<dots> = (world_step (Post m) w)\<lparr>table := table (world_step (Post m) w) @ ms\<rparr>"
    using Cons.prems by (intro Cons.IH) simp
  also have "\<dots> = w\<lparr>table := table w @ m # ms\<rparr>"
    using Cons.prems by simp
  finally show ?case .
qed

lemma run_posts_subscribed:
  "live w = [q] \<Longrightarrow>
     run (map Post ms) w = w\<lparr>table := table w @ ms, ui := (ui w)\<lparr>messages := messages (ui w) @ ms\<rparr>\<rparr>"
proof (induction ms arbitrary: w)
  case Nil
  show ?case by (simp add: run_def)
next
  case (Cons m ms)
  let ?w = "world_step (Post m) w"
  have "run (map Post (m # ms)) w = run (map Post ms) ?w"
    by (simp add: run_def)
  also have "\<dots> = ?w\<lparr>table := table ?w @ ms, ui := (ui ?w)\<lparr>messages := messages (ui ?w) @ ms\<rparr>\<rparr>"
    using Cons.prems by (intro Cons.IH) simp
  also have "\<dots> = w\<lparr>table := table w @ m # ms, ui := (ui w)\<lparr>messages := messages (ui w) @ m # ms\<rparr>\<rparr>"
    using Cons.prems by (simp add: live_handler_def append_message_def)
  finally show ?case .
qed

lemma mount_reads_history:
  assumes "\<exists>c\<in>set connectionConfigs. env c = Succeeds"
  shows "\<exists>cs. world_step (Mount env) w =
           w\<lparr>svc := (svc w)\<lparr>connected := True\<rparr>,
             ui := (ui w)\<lparr>messages := js_slice (sort_key timestamp (table w)) (- 50),
                          isConnected := True, loading := False\<rparr>,
             issued := issued w @ cs\<rparr>"
proof -
  obtain cs es where "connect (svc w) env = (None, (svc w)\<lparr>connected := True\<rparr>, cs, es)"
    using connect_success[OF assms] by blast
  then show ?thesis
    by (intro exI[of _ "cs @ [Select]"]) (simp add: initConnection_def getMessages_def)
qed


section \<open>History at mount, live messages after joining\<close>

text \<open>
  C1, as the code has it. The component reads the history once, when it mounts (the
  newest 50 records by timestamp), and registers its live query only when the user
  joins. Its message list is then that snapshot followed by exactly the records
  created after the registration, each once and in order of creation. No cursor is
  involved, and the records created between the two steps appear in neither part.
\<close>

theorem join_session_messages:
  assumes "\<exists>c\<in>set connectionConfigs. env c = Succeeds" and "trim n \<noteq> []"
  shows "messages (ui (join_session env pre mid n q post))
           = js_slice (sort_key timestamp pre) (- 50) @ post
         \<and> table (join_session env pre mid n q post) = pre @ mid @ post"
proof -
  define snapshot where "snapshot = js_slice (sort_key timestamp pre) (- 50)"
  define w1 where "w1 = run (map Post pre) initial_world"
  define w2 where "w2 = world_step (Mount env) w1"
  define w3 where "w3 = run (map Post mid) w2"
  define w4 where "w4 = world_step (Join q) (world_step (TypeName n) w3)"
  define w5 where "w5 = run (map Post post) w4"
  have w1: "w1 = \<lparr>table = pre, live = [], svc = initial_service, ui = initial_Chat, issued = []\<rparr>"
    unfolding w1_def by (simp add: run_posts_unsubscribed initial_world_def)
  obtain cs where w2: "w2 = \<lparr>table = pre, live = [], svc = \<lparr>connected = True\<rparr>,
                  ui = initial_Chat\<lparr>messages := snapshot, isConnected := True, loading := False\<rparr>,
                  issued = cs\<rparr>"
    using mount_reads_history[OF assms(1), of w1]
    unfolding w2_def snapshot_def by (auto simp: w1 initial_service_def)
  have w3: "w3 = \<lparr>table = pre @ mid, live = [], svc = \<lparr>connected = True\<rparr>,
                  ui = initial_Chat\<lparr>messages := snapshot, isConnected := True, loading := False\<rparr>,
                  issued = cs\<rparr>"
    unfolding w3_def by (simp add: run_posts_unsubscribed w2)
  have w4: "w4 = \<lparr>table = pre @ mid, live = [q], svc = \<lparr>connected = True\<rparr>,
                  ui = initial_Chat\<lparr>messages := snapshot, isConnected := True, loading := False,
                          username := n, subscriptionRef := Some q, isJoined := True\<rparr>,
                  issued = cs @ [Live]\<rparr>"
    unfolding w4_def using assms(2)
    by (simp add: w3 joinChat_def subscribeToMessages_def initial_Chat_def)
  have w5: "messages (ui w5) = snapshot @ post \<and> table w5 = pre @ mid @ post"
    unfolding w5_def by (simp add: run_posts_subscribed[where q=q] w4 initial_Chat_def)
  have "join_session env pre mid n q post = w5"
    unfolding w5_def w4_def w3_def w2_def w1_def
    by (simp add: join_session_def run_append del: world_step.simps) (simp add: run_def)
  with w5 show ?thesis by (simp add: snapshot_def)
qed

theorem join_session_messages_witness:
  "messages (ui (join_session all_succeed [bob_yo 2, alice_hi 1] [carol_ok 3] ''dave'' ''q1'' [alice_hi 4]))
     = [alice_hi 1, bob_yo 2, alice_hi 4]"
proof -
  have ex: "\<exists>c\<in>set connectionConfigs. all_succeed c = Succeeds"
    by (auto simp: all_succeed_def connectionConfigs_def)
  have nm: "trim ''dave'' \<noteq> []"
    by (simp add: trim_def is_white_def)
  show ?thesis
    using join_session_messages[OF ex nm, of "[bob_yo 2, alice_hi 1]" "[carol_ok 3]" "''q1''" "[alice_hi 4]"]
    by (simp add: js_slice_def alice_hi_def bob_yo_def)
qed

text \<open>
  C1 as stated fails: a record created after the history was read and before the
  live query was registered is in the table and never reaches the component.
\<close>

theorem join_gap_loses_message:
  "messages (ui (join_session all_succeed [] [alice_hi 1] ''dave'' ''q1'' [bob_yo 2])) = [bob_yo 2]
   \<and> table (join_session all_succeed [] [alice_hi 1] ''dave'' ''q1'' [bob_yo 2]) = [alice_hi 1, bob_yo 2]"
  by (simp add: join_session_def run_def initial_world_def initial_Chat_def initial_service_def
      initConnection_def connect_def connectionConfigs_def all_succeed_def getMessages_def
      js_slice_def joinChat_def subscribeToMessages_def trim_def is_white_def
      live_handler_def append_message_def)

section \<open>Reading the history\<close>

text \<open>
  C2, as the code has it. \<open>getMessages\<close> never reports a gap or a floor. Its only
  error is the plain \<open>Error\<close> "Database not connected"; on a connected service it
  always returns a list: the empty one when \<open>select\<close> fails, and just \<open>limit\<close>
  records, with no sign of the omission, when the table holds more than \<open>limit\<close>.
\<close>

theorem getMessages_never_reports_gap:
  "(\<not> connected s \<longrightarrow>
      getMessages s limit selected = (Inl (ErrorObj ''Error'' ''Database not connected''), []))
   \<and> (connected s \<longrightarrow>
        (\<exists>ms. fst (getMessages s limit selected) = Inr ms)
        \<and> fst (getMessages s limit (Inl e)) = Inr []
        \<and> (1 \<le> limit \<and> limit < int (length rs) \<longrightarrow>
             (\<exists>ms. fst (getMessages s limit (Inr (Rows rs))) = Inr ms \<and> int (length ms) = limit)))"
  by (auto simp: getMessages_def not_connected_def new_Error_def js_slice_last
      split: sum.splits select_result.splits)

theorem getMessages_never_reports_gap_witness:
  "getMessages initial_service 10 (Inr (Rows [alice_hi 1])) = (Inl (ErrorObj ''Error'' ''Database not connected''), [])
   \<and> fst (getMessages online 10 (Inl (NonError ''timeout''))) = Inr []
   \<and> (\<exists>ms. fst (getMessages online 1 (Inr (Rows [alice_hi 1, bob_yo 2]))) = Inr ms \<and> int (length ms) = 1)"
  using getMessages_never_reports_gap[where s=initial_service and limit=10 and selected="Inr (Rows [alice_hi 1])"]
    getMessages_never_reports_gap[where s=online and limit=10 and e="NonError ''timeout''"]
    getMessages_never_reports_gap[where s=online and limit=1 and rs="[alice_hi 1, bob_yo 2]"]
  by (simp add: initial_service_def online_def)

text \<open>
  C2 as stated fails: of three records a read with limit 2 returns the newest two as
  an ordinary result.
\<close>

theorem getMessages_truncates_silently:
  "fst (getMessages online 2 (Inr (Rows [alice_hi 1, bob_yo 2, carol_ok 3]))) = Inr [bob_yo 2, carol_ok 3]"
  by (simp add: getMessages_def online_def js_slice_def alice_hi_def bob_yo_def carol_ok_def)

text \<open>
  C8, as the code has it. \<open>getMessages\<close> takes a limit and no cursor. For a limit of
  at least 1 it returns the newest \<open>limit\<close> records of the table, oldest first
  (ordered by timestamp, records of equal timestamp in the order \<open>select\<close> gave
  them), so never more than \<open>limit\<close>. With a limit of at least 2, the two records of
  alice and bob come back in that order when alice's timestamp is not the later one.
\<close>

theorem getMessages_newest_window:
  assumes "connected s" and "1 \<le> limit"
  shows "fst (getMessages s limit (Inr (Rows rs)))
           = Inr (drop (length rs - nat limit) (sort_key timestamp rs))
         \<and> sorted (map timestamp (drop (length rs - nat limit) (sort_key timestamp rs)))
         \<and> int (length (drop (length rs - nat limit) (sort_key timestamp rs))) \<le> limit
         \<and> (2 \<le> limit \<and> t1 \<le> t2 \<longrightarrow>
              fst (getMessages s limit (Inr (Rows [alice_hi t1, bob_yo t2]))) = Inr [alice_hi t1, bob_yo t2])"
proof -
  have a: "fst (getMessages s limit (Inr (Rows rs)))
           = Inr (drop (length rs - nat limit) (sort_key timestamp rs))"
    using assms by (simp add: getMessages_def js_slice_last)
  have b: "sorted (map timestamp (drop (length rs - nat limit) (sort_key timestamp rs)))"
    by (rule sorted_map_drop) (rule sorted_sort_key)
  have c: "int (length (drop (length rs - nat limit) (sort_key timestamp rs))) \<le> limit"
    using assms by simp
  have d: "fst (getMessages s limit (Inr (Rows [alice_hi t1, bob_yo t2]))) = Inr [alice_hi t1, bob_yo t2]"
    if "2 \<le> limit" "t1 \<le> t2"
    using that assms by (simp add: getMessages_def js_slice_last alice_hi_def bob_yo_def)
  from a b c d show ?thesis by blast
qed

theorem getMessages_newest_window_witness:
  "fst (getMessages online 50 (Inr (Rows [bob_yo 2, alice_hi 1]))) = Inr [alice_hi 1, bob_yo 2]
   \<and> fst (getMessages online 50 (Inr (Rows [alice_hi 1, bob_yo 2]))) = Inr [alice_hi 1, bob_yo 2]"
proof -
  have on: "connected online" by (simp add: online_def)
  have lim: "(1::int) \<le> 50" by simp
  show ?thesis
    using getMessages_newest_window[OF on lim, of "[bob_yo 2, alice_hi 1]" 1 2]
    by (simp add: alice_hi_def bob_yo_def)
qed

text \<open>
  C8 as stated fails: a read capped at one record returns the newest record, not the
  first one after the start; and a read with limit 0 returns the whole table.
\<close>

theorem getMessages_skips_first_message:
  "fst (getMessages online 1 (Inr (Rows [alice_hi 1, bob_yo 2]))) = Inr [bob_yo 2]
   \<and> fst (getMessages online 0 (Inr (Rows [alice_hi 1, bob_yo 2]))) = Inr [alice_hi 1, bob_yo 2]"
  by (simp add: getMessages_def online_def js_slice_def alice_hi_def bob_yo_def)

section \<open>Sending\<close>

text \<open>
  C3, as the code has it. The component's \<open>sendMessage\<close> ignores a body that is
  empty after trimming: it throws nothing and calls nothing. The service's
  \<open>sendMessage\<close> validates nothing: when connected it issues \<open>create\<close> for any
  author and body, returns what was created as an array, and rethrows what
  \<open>create\<close> throws. A joined and connected component sends its user name and the
  trimmed body and clears the input.
\<close>

theorem sendMessage_unvalidated:
  "(trim (newMessage c) = [] \<longrightarrow> Chat_sendMessage c s now created = (None, c, []))
   \<and> (connected s \<longrightarrow>
        sendMessage s n body now (Inr res) = (Inr (as_array res), [Create n body now])
        \<and> sendMessage s n body now (Inl e) = (Inl e, [Create n body now]))
   \<and> (trim (newMessage c) \<noteq> [] \<and> isJoined c \<and> isConnected c \<and> connected s \<longrightarrow>
        Chat_sendMessage c s now (Inr res)
          = (None, c\<lparr>newMessage := []\<rparr>, [Create (Chat.username c) (trim (newMessage c)) now]))"
  by (simp add: Chat_sendMessage_def sendMessage_def)

theorem sendMessage_unvalidated_witness:
  "Chat_sendMessage (joined_Chat ''bob'' ''   '') online 7 (Inr (Single (bob_yo 7)))
     = (None, joined_Chat ''bob'' ''   '', [])
   \<and> sendMessage online ''bob'' ''yo'' 7 (Inr (Single (bob_yo 7)))
     = (Inr [bob_yo 7], [Create ''bob'' ''yo'' 7])
   \<and> Chat_sendMessage (joined_Chat ''bob'' '' yo '') online 7 (Inr (Single (bob_yo 7)))
     = (None, joined_Chat ''bob'' [], [Create ''bob'' ''yo'' 7])"
  using sendMessage_unvalidated[where c="joined_Chat ''bob'' ''   ''" and s=online and now=7
      and created="Inr (Single (bob_yo 7))" and n="''bob''" and body="''yo''" and res="Single (bob_yo 7)"]
    sendMessage_unvalidated[where c="joined_Chat ''bob'' '' yo ''" and s=online and now=7
      and res="Single (bob_yo 7)"]
  by (simp add: joined_Chat_def online_def trim_def is_white_def)

text \<open>
  C3 as stated fails: the connected service creates a record with empty author and
  empty body and returns it.
\<close>

theorem sendMessage_stores_empty_message:
  "sendMessage online [] [] 7 (Inr (Single blank_record)) = (Inr [blank_record], [Create [] [] 7])"
  by (simp add: sendMessage_def online_def)

text \<open>
  C4, as the code has it. The component's \<open>sendMessage\<close> returns without throwing
  and without a database call while the component is not joined or not connected.
  The service's \<open>sendMessage\<close> throws a plain \<open>Error\<close>, "Database not connected",
  and creates nothing while the service is not connected.
\<close>

theorem send_outside_session:
  "(\<not> isJoined c \<or> \<not> isConnected c \<longrightarrow> Chat_sendMessage c s now created = (None, c, []))
   \<and> (\<not> connected s \<longrightarrow>
        sendMessage s n body now created = (Inl (ErrorObj ''Error'' ''Database not connected''), []))"
  by (auto simp: Chat_sendMessage_def sendMessage_def not_connected_def new_Error_def)

theorem send_outside_session_witness:
  "Chat_sendMessage (connected_Chat ''bob'' ''hi'') online 7 (Inr (Single (bob_yo 7)))
     = (None, connected_Chat ''bob'' ''hi'', [])
   \<and> sendMessage initial_service ''bob'' ''hi'' 7 (Inr (Single (bob_yo 7)))
     = (Inl (ErrorObj ''Error'' ''Database not connected''), [])"
  using send_outside_session[where c="connected_Chat ''bob'' ''hi''" and s=initial_service
      and n="''bob''" and body="''hi''" and now=7 and created="Inr (Single (bob_yo 7))"]
    send_outside_session[where c="connected_Chat ''bob'' ''hi''" and s=online
      and now=7 and created="Inr (Single (bob_yo 7))"]
  by (simp add: connected_Chat_def initial_service_def)

text \<open>
  C4 as stated fails: a send from a component that has not joined throws nothing,
  and the connected service creates the record for a caller that never joined.
\<close>

theorem send_not_joined_no_error:
  "fst (Chat_sendMessage (connected_Chat ''bob'' ''hi'') online 7 (Inr (Single (bob_yo 7)))) = None
   \<and> sendMessage online ''bob'' ''yo'' 7 (Inr (Single (bob_yo 7))) = (Inr [bob_yo 7], [Create ''bob'' ''yo'' 7])"
  by (simp add: Chat_sendMessage_def sendMessage_def connected_Chat_def online_def)

section \<open>Joining\<close>

text \<open>
  C5, as the code has it. When the display name is empty, or holds white space only,
  \<open>joinChat\<close> returns without throwing anything: the component is unchanged (it is
  not joined, it holds no subscription) and no call reaches the database.
\<close>

theorem joinChat_blank_name_ignored:
  "trim (Chat.username c) = [] \<Longrightarrow> joinChat c s lived = (None, c, [])"
  by (simp add: joinChat_def)

theorem joinChat_blank_name_ignored_witness:
  "joinChat (connected_Chat [] []) online (Inr ''q1'') = (None, connected_Chat [] [], [])"
  using joinChat_blank_name_ignored[of "connected_Chat [] []" online "Inr ''q1''"]
  by (simp add: connected_Chat_def trim_def)

text \<open>C5 as stated fails: joining with the empty name throws no error at all.\<close>

theorem joinChat_empty_name_no_error:
  "fst (joinChat (connected_Chat [] []) online (Inr ''q1'')) = None"
  by (simp add: joinChat_def connected_Chat_def trim_def)

section \<open>Connecting\<close>

text \<open>
  C6, as the code has it. When every endpoint fails, \<open>connect\<close> throws one plain
  \<open>Error\<close> whose message carries the cause of the last attempt only. The causes of
  all six attempts, one for each endpoint in the order of the list, are collected in
  the array that is printed on the console.
\<close>

theorem connect_all_failed:
  "connect_thrown s (\<lambda>c. Throws (st c) (e c))
     = Some (ErrorObj ''Error''
        (''All connection attempts failed. Server is running, but client connection failed. Check browser console for detailed errors. Last error: ''
          @ ''http://localhost:8000 (HTTP-Basic): '' @ errorMessage (e (last connectionConfigs))))
   \<and> connect_errors s (\<lambda>c. Throws (st c) (e c)) = map (\<lambda>c. error_entry c (e c)) connectionConfigs
   \<and> length (connect_errors s (\<lambda>c. Throws (st c) (e c))) = 6"
proof -
  let ?env = "\<lambda>c. Throws (st c) (e c)"
  let ?r0 = "\<lparr>run_connected = connected s, errors = [], calls = []\<rparr>"
  obtain r b where L: "connect_loop ?env connectionConfigs ?r0 = (r, b)"
    by (cases "connect_loop ?env connectionConfigs ?r0")
  have nret: "\<not> b"
    using connect_loop_returned[of ?env connectionConfigs ?r0] by (simp add: L)
  have errs: "errors r = map (\<lambda>c. error_entry c (e c)) connectionConfigs"
    using connect_loop_errors[of st e connectionConfigs ?r0] by (simp add: L)
  have e1: "connect_errors s ?env = map (\<lambda>c. error_entry c (e c)) connectionConfigs"
    using nret errs by (simp add: connect_errors_def connect_def L)
  have t1: "connect_thrown s ?env = Some (new_Error (all_failed_message (map (\<lambda>c. error_entry c (e c)) connectionConfigs)))"
    using nret errs by (simp add: connect_thrown_def connect_def L)
  have msg: "all_failed_message (map (\<lambda>c. error_entry c (e c)) connectionConfigs)
      = ''All connection attempts failed. Server is running, but client connection failed. Check browser console for detailed errors. Last error: ''
          @ ''http://localhost:8000 (HTTP-Basic): '' @ errorMessage (e (last connectionConfigs))"
    by (simp add: all_failed_message_def connectionConfigs_def error_entry_def)
  show ?thesis
    using e1 t1 msg by (simp add: new_Error_def connectionConfigs_def)
qed

theorem connect_all_failed_witness:
  "connect_thrown initial_service all_refused
     = Some (ErrorObj ''Error''
        ''All connection attempts failed. Server is running, but client connection failed. Check browser console for detailed errors. Last error: http://localhost:8000 (HTTP-Basic): refused'')"
proof -
  have env: "all_refused = (\<lambda>c. Throws AtConnect (NonError ''refused''))"
    by (rule ext) (simp add: all_refused_def)
  show ?thesis
    using connect_all_failed[of initial_service "\<lambda>c. AtConnect" "\<lambda>c. NonError ''refused''"]
    by (simp add: env)
qed

text \<open>
  C6 as stated fails: two servers whose first attempts fail for different reasons
  make \<open>connect\<close> throw the same error.
\<close>

theorem connect_error_hides_causes:
  "connect_thrown initial_service all_refused = connect_thrown initial_service first_denied
   \<and> connect_errors initial_service all_refused \<noteq> connect_errors initial_service first_denied"
  by (simp add: connect_thrown_def connect_errors_def connect_def connectionConfigs_def
      all_refused_def first_denied_def all_failed_message_def error_entry_def Let_def)

text \<open>
  C7. \<open>connect\<close> walks its list of six configurations in order. Its calls are those
  of the attempts up to and including the first that succeeds, and of no later one:
  a failed attempt ends with \<open>close\<close> and is followed by the next entry, the
  successful one runs the whole bootstrap. It returns normally exactly when some
  entry succeeds.
\<close>

theorem connect_linear_retry:
  "length connectionConfigs = 6
   \<and> connect_calls s env = concat (map (attempt_calls env) (up_to_success env connectionConfigs))
   \<and> connect_urls (connect_calls s env) = map url (up_to_success env connectionConfigs)
   \<and> (connect_thrown s env = None) = (\<exists>c\<in>set connectionConfigs. env c = Succeeds)"
proof -
  let ?r0 = "\<lparr>run_connected = connected s, errors = [], calls = []\<rparr>"
  have calls: "connect_calls s env = calls (fst (connect_loop env connectionConfigs ?r0))"
    by (simp add: connect_calls_def connect_def Let_def split: prod.splits)
  have thrown: "(connect_thrown s env = None) = snd (connect_loop env connectionConfigs ?r0)"
    by (simp add: connect_thrown_def connect_def Let_def split: prod.splits)
  have c1: "connect_calls s env = concat (map (attempt_calls env) (up_to_success env connectionConfigs))"
    by (simp add: calls connect_loop_calls)
  have c2: "connect_urls (connect_calls s env) = map url (up_to_success env connectionConfigs)"
    by (simp only: c1 connect_urls_attempts)
  have c3: "(connect_thrown s env = None) = (\<exists>c\<in>set connectionConfigs. env c = Succeeds)"
    by (simp only: thrown connect_loop_returned)
  have c0: "length connectionConfigs = 6"
    by (simp add: connectionConfigs_def)
  from c0 c1 c2 c3 show ?thesis by blast
qed

theorem connect_linear_retry_witness:
  "connect_thrown initial_service third_only = None
   \<and> connect_urls (connect_calls initial_service third_only)
       = [''ws://localhost:8000/rpc'', ''http://localhost:8000/rpc'', ''ws://127.0.0.1:8000/rpc'']
   \<and> connect_calls initial_service third_only
       = [New, Connect ''ws://localhost:8000/rpc'', Close,
          New, Connect ''http://localhost:8000/rpc'', Close,
          New, Connect ''ws://127.0.0.1:8000/rpc'', Signin, Use, QueryInfo, DefineSchema]"
proof -
  have ex: "\<exists>c\<in>set connectionConfigs. third_only c = Succeeds"
    by (simp add: third_only_def connectionConfigs_def)
  have att: "concat (map (attempt_calls third_only) (take 3 connectionConfigs))
       = [New, Connect ''ws://localhost:8000/rpc'', Close,
          New, Connect ''http://localhost:8000/rpc'', Close,
          New, Connect ''ws://127.0.0.1:8000/rpc'', Signin, Use, QueryInfo, DefineSchema]"
    by (simp add: attempt_calls_def third_only_def connectionConfigs_def)
  have urls: "map url (take 3 connectionConfigs)
       = [''ws://localhost:8000/rpc'', ''http://localhost:8000/rpc'', ''ws://127.0.0.1:8000/rpc'']"
    by (simp add: connectionConfigs_def)
  show ?thesis
    using connect_linear_retry[of initial_service third_only] ex
    by (simp add: up_to_success_third att urls)
qed

section \<open>Unsubscribing\<close>




section \<open>Live events reach the consumer only as created records\<close>

text \<open>
  C10. The handler registered by \<open>subscribeToMessages\<close> invokes the consumer's callback
  exactly when the event's action is \<open>CREATE\<close> and its payload is present, and then
  with that payload. So over any sequence of events the component's message list
  grows by the records of the \<open>CREATE\<close> events, in order, and by nothing else.
\<close>

theorem live_handler_forwards_creates_only:
  "(live_handler (\<lambda>m seen. seen @ [m]) action result seen \<noteq> seen)
       = (action = ''CREATE'' \<and> result \<noteq> None)
   \<and> live_handler (\<lambda>m seen. seen @ [m]) action result seen
       = (if action = ''CREATE'' \<and> result \<noteq> None then seen @ [the result] else seen)
   \<and> messages (deliver evs c) = messages c @ created_records evs"
proof -
  have "messages (deliver evs c) = messages c @ created_records evs"
  proof (induction evs arbitrary: c)
    case Nil
    show ?case by (simp add: deliver_def created_records_def)
  next
    case (Cons ev evs)
    obtain a r where ev: "ev = (a, r)" by (cases ev)
    have "deliver (ev # evs) c = deliver evs (live_handler append_message a r c)"
      by (simp add: deliver_def ev)
    with Cons.IH[of "live_handler append_message a r c"] show ?case
      by (auto simp: ev created_records_def live_handler_def
          append_message_def split: option.splits)
  qed
  then show ?thesis
    by (simp add: live_handler_def split: option.splits)
qed

theorem live_handler_forwards_creates_only_witness:
  "messages (deliver [(''UPDATE'', Some (alice_hi 1)), (''CREATE'', Some (bob_yo 2)),
                      (''CREATE'', None), (''DELETE'', Some (bob_yo 2))] initial_Chat)
     = [bob_yo 2]"
  using live_handler_forwards_creates_only
    [of "''CREATE''" None "[]" "[(''UPDATE'', Some (alice_hi 1)), (''CREATE'', Some (bob_yo 2)),
                      (''CREATE'', None), (''DELETE'', Some (bob_yo 2))]" initial_Chat]
  by (simp add: created_records_def initial_Chat_def)

end
